theory Spec2Isabelle
  imports Complex_Main
begin

section \<open>The point-cloud background of three-scene.js\<close>

text \<open>
  The module keeps its state in top-level variables and changes them from the callbacks the
  browser invokes: input listeners on the canvas, the animation-frame callback, the timeout
  callbacks and the callbacks of the asset loader. The model is one record holding the
  module's variables together with the part of the host the module talks to (the canvas
  element, the pending animation-frame requests, the pending timeouts, the clock, the
  randomness source), and one function per function of the source, passing that record.

  JavaScript numbers are modelled as real numbers: the arithmetic of the source is read
  exactly, without the rounding of IEEE doubles. A property access on \<open>undefined\<close> is the
  error value \<open>TypeError\<close>.
\<close>

subsection \<open>Data\<close>

type_synonym vec3 = "real \<times> real \<times> real"

datatype js_error = TypeError

text \<open>A perspective camera: where it stands, the point of its last \<open>lookAt\<close>, its aspect
  ratio (\<open>None\<close> when the quotient of the viewport is not a finite number) and the aspect its
  projection matrix was last computed from.\<close>

record camera_obj =
  position :: vec3
  lookTarget :: "vec3 option"
  aspect :: "real option"
  projectionAspect :: "real option"

record renderer_obj =
  rWidth :: real
  rHeight :: real
  pixelRatio :: real
  framesRendered :: nat
  rendererDisposed :: bool

text \<open>A \<open>THREE.Points\<close> object: the flat position and colour arrays of its geometry (three
  numbers per point), the fields of its \<open>PointsMaterial\<close>, and whether \<open>dispose\<close> was called on
  the geometry and on the material.\<close>

record points_obj =
  positionAttr :: "real list"
  colorAttr :: "real list option"
  matSize :: real
  matVertexColors :: bool
  matColor :: "nat option"
  matTransparent :: bool
  matOpacity :: real
  matSizeAttenuation :: bool
  geometryDisposed :: bool
  materialDisposed :: bool

datatype css_pointer_events = PE_unset | PE_auto | PE_none

datatype css_cursor = Cursor_unset | Cursor_grab | Cursor_default

datatype canvas_event =
  Ev_mousedown | Ev_mousemove | Ev_mouseup | Ev_mouseleave | Ev_wheel
  | Ev_touchstart | Ev_touchmove | Ev_touchend

record canvas_el =
  pointerEvents :: css_pointer_events
  cursor :: css_cursor
  listeners :: "canvas_event set"

text \<open>The variables of the module (lines 9 to 34 of the source), then the host.\<close>

record state =
  scene :: "nat list option"
  camera :: "camera_obj option"
  renderer :: "renderer_obj option"
  pointCloud :: "nat option"
  animationId :: "nat option"
  time :: real
  isUserInteracting :: bool
  interactionTimeout :: "nat option"
  targetRotationY :: real
  currentRotationY :: real
  targetCameraDistance :: real
  currentCameraDistance :: real
  targetCameraY :: real
  currentCameraY :: real
  isDragging :: bool
  previousMouseX :: real
  previousMouseY :: real
  cameraTheta :: real
  cameraPhi :: real
  orbitEnabled :: bool
  canvas :: "canvas_el option"
  resizeListener :: bool
  bodyCanvasDragging :: bool
  innerWidth :: real
  innerHeight :: real
  devicePixelRatio :: real
  userAgentMobile :: bool
  mathRandom :: "nat \<Rightarrow> real"
  heap :: "points_obj list"
  pendingLoads :: "(string option \<times> real) list"
  rafQueue :: "nat list"
  nextRafId :: nat
  timers :: "(nat \<times> nat) list"
  nextTimerId :: nat
  now :: nat

text \<open>
  \<^item> \<open>scene\<close> is the list of the scene's children, each an index into \<open>heap\<close>, the store
    of the \<open>Points\<close> objects created so far; \<open>pointCloud\<close> is such an index too, so that the
    variable and the scene's child are the same object.
  \<^item> \<open>mathRandom\<close> is the sequence of the numbers \<open>Math.random()\<close> will return next.
  \<^item> \<open>pendingLoads\<close> are the loads handed to the loader whose callback has not run: the
    chosen file and the \<open>scale_factor\<close> its success callback closes over.
  \<^item> \<open>rafQueue\<close> are the handles of the pending \<open>requestAnimationFrame\<close> requests, each
    for \<open>animate\<close>.
  \<^item> \<open>timers\<close> are the pending timeouts, each a handle and the time in milliseconds at
    which it is due; every timeout the module sets has the same callback, which clears
    \<open>isUserInteracting\<close>. \<open>now\<close> is the clock.
\<close>

subsection \<open>Host operations\<close>

definition setTimeout :: "nat \<Rightarrow> state \<Rightarrow> nat \<times> state" where
  "setTimeout delay s =
     (nextTimerId s,
      s\<lparr>timers := timers s @ [(nextTimerId s, now s + delay)],
        nextTimerId := Suc (nextTimerId s)\<rparr>)"

definition clearTimeout :: "nat option \<Rightarrow> state \<Rightarrow> state" where
  "clearTimeout h s =
     (case h of
        None \<Rightarrow> s
      | Some i \<Rightarrow> s\<lparr>timers := filter (\<lambda>t. fst t \<noteq> i) (timers s)\<rparr>)"

definition requestAnimationFrame :: "state \<Rightarrow> nat \<times> state" where
  "requestAnimationFrame s =
     (nextRafId s,
      s\<lparr>rafQueue := rafQueue s @ [nextRafId s], nextRafId := Suc (nextRafId s)\<rparr>)"

definition cancelAnimationFrame :: "nat \<Rightarrow> state \<Rightarrow> state" where
  "cancelAnimationFrame i s = s\<lparr>rafQueue := removeAll i (rafQueue s)\<rparr>"

subsection \<open>The functions of the module\<close>

text \<open>\<open>setOrbitEnabled\<close>, lines 36 to 43.\<close>

definition setOrbitEnabled :: "bool \<Rightarrow> state \<Rightarrow> state" where
  "setOrbitEnabled enabled s =
     (let s1 = s\<lparr>orbitEnabled := enabled\<rparr>
      in case canvas s1 of
           None \<Rightarrow> s1
         | Some cv \<Rightarrow>
             s1\<lparr>canvas := Some (cv\<lparr>pointerEvents := (if enabled then PE_auto else PE_none),
                                    cursor := (if enabled then Cursor_grab else Cursor_default)\<rparr>)\<rparr>)"

text \<open>\<open>updateCameraPosition\<close>, lines 218 to 225. It reads \<open>camera.position\<close>, which throws when
  \<open>camera\<close> is still undefined.\<close>

definition updateCameraPosition :: "state \<Rightarrow> js_error + state" where
  "updateCameraPosition s =
     (let x = currentCameraDistance s * cos (cameraPhi s) * sin (cameraTheta s);
          y = currentCameraDistance s * sin (cameraPhi s) + 5;
          z = currentCameraDistance s * cos (cameraPhi s) * cos (cameraTheta s)
      in case camera s of
           None \<Rightarrow> Inl TypeError
         | Some c \<Rightarrow> Inr (s\<lparr>camera := Some (c\<lparr>position := (x, y, z),
                                                 lookTarget := Some (0, 0, 0)\<rparr>)\<rparr>))"

text \<open>\<open>animate\<close>, lines 230 to 250.\<close>

definition pulseOpacity :: "state \<Rightarrow> state" where
  "pulseOpacity s =
     (case pointCloud s of
        None \<Rightarrow> s
      | Some p \<Rightarrow>
          s\<lparr>heap := (heap s)[p := (heap s ! p)\<lparr>matOpacity := 0.8 + sin (time s * 0.5) * 0.05\<rparr>]\<rparr>)"

definition render :: "state \<Rightarrow> js_error + state" where
  "render s =
     (case renderer s of
        None \<Rightarrow> Inl TypeError
      | Some r \<Rightarrow> Inr (s\<lparr>renderer := Some (r\<lparr>framesRendered := Suc (framesRendered r)\<rparr>)\<rparr>))"

definition animate :: "state \<Rightarrow> js_error + state" where
  "animate s =
     (let (h, s1) = requestAnimationFrame s;
          s2 = s1\<lparr>animationId := Some h, time := time s1 + 0.016\<rparr>
      in case (if \<not> isUserInteracting s2
               then updateCameraPosition (s2\<lparr>cameraTheta := cameraTheta s2 + 0.002\<rparr>)
               else Inr s2) of
           Inl e \<Rightarrow> Inl e
         | Inr s3 \<Rightarrow>
             (case updateCameraPosition
                     (s3\<lparr>currentCameraDistance := currentCameraDistance s3
                           + (targetCameraDistance s3 - currentCameraDistance s3) * 0.08\<rparr>) of
                Inl e \<Rightarrow> Inl e
              | Inr s4 \<Rightarrow> render (pulseOpacity s4)))"

text \<open>\<open>onWindowResize\<close>, lines 255 to 259.\<close>

definition quotient :: "real \<Rightarrow> real \<Rightarrow> real option" where
  "quotient a b = (if b = 0 then None else Some (a / b))"

definition onWindowResize :: "state \<Rightarrow> js_error + state" where
  "onWindowResize s =
     (case camera s of
        None \<Rightarrow> Inl TypeError
      | Some c \<Rightarrow>
          (case renderer s of
             None \<Rightarrow> Inl TypeError
           | Some r \<Rightarrow>
               Inr (s\<lparr>camera := Some (c\<lparr>aspect := quotient (innerWidth s) (innerHeight s),
                                        projectionAspect := quotient (innerWidth s) (innerHeight s)\<rparr>),
                      renderer := Some (r\<lparr>rWidth := innerWidth s, rHeight := innerHeight s\<rparr>)\<rparr>)))"

text \<open>The mouse listeners, lines 264 to 305.\<close>

definition onMouseDown :: "real \<Rightarrow> real \<Rightarrow> state \<Rightarrow> state" where
  "onMouseDown clientX clientY s =
     (let s1 = s\<lparr>isDragging := True, isUserInteracting := True,
                 previousMouseX := clientX, previousMouseY := clientY\<rparr>;
          s2 = clearTimeout (interactionTimeout s1) s1
      in s2\<lparr>bodyCanvasDragging := True\<rparr>)"

definition orbit :: "real \<Rightarrow> real \<Rightarrow> state \<Rightarrow> js_error + state" where
  "orbit clientX clientY s =
     (let deltaX = clientX - previousMouseX s;
          deltaY = clientY - previousMouseY s;
          s1 = s\<lparr>cameraTheta := cameraTheta s - deltaX * 0.005\<rparr>;
          s2 = s1\<lparr>cameraPhi := cameraPhi s1 + deltaY * 0.003\<rparr>;
          s3 = s2\<lparr>cameraPhi := max 0.1 (min 1.4 (cameraPhi s2))\<rparr>
      in case updateCameraPosition s3 of
           Inl e \<Rightarrow> Inl e
         | Inr s4 \<Rightarrow> Inr (s4\<lparr>previousMouseX := clientX, previousMouseY := clientY\<rparr>))"

definition onMouseMove :: "real \<Rightarrow> real \<Rightarrow> state \<Rightarrow> js_error + state" where
  "onMouseMove clientX clientY s =
     (if \<not> isDragging s then Inr s else orbit clientX clientY s)"

definition onMouseUp :: "state \<Rightarrow> state" where
  "onMouseUp s =
     (let s1 = s\<lparr>isDragging := False, bodyCanvasDragging := False\<rparr>;
          s2 = clearTimeout (interactionTimeout s1) s1;
          (h, s3) = setTimeout 2000 s2
      in s3\<lparr>interactionTimeout := Some h\<rparr>)"

text \<open>\<open>onWheel\<close>, lines 310 to 329.\<close>

definition onWheel :: "bool \<Rightarrow> bool \<Rightarrow> real \<Rightarrow> state \<Rightarrow> state" where
  "onWheel ctrlKey metaKey deltaY s =
     (if \<not> ctrlKey \<and> \<not> metaKey then s
      else
        let s1 = s\<lparr>isUserInteracting := True\<rparr>;
            s2 = clearTimeout (interactionTimeout s1) s1;
            s3 = s2\<lparr>targetCameraDistance := targetCameraDistance s2 + deltaY * 0.05\<rparr>;
            s4 = s3\<lparr>targetCameraDistance := max 20 (min 120 (targetCameraDistance s3))\<rparr>;
            (h, s5) = setTimeout 2000 s4
        in s5\<lparr>interactionTimeout := Some h\<rparr>)"

text \<open>The touch listeners, lines 334 to 374. \<open>touches\<close> is the list of the client
  coordinates of the touches of the event.\<close>

definition onTouchStart :: "(real \<times> real) list \<Rightarrow> state \<Rightarrow> state" where
  "onTouchStart touches s =
     (case touches of
        [t] \<Rightarrow>
          (let s1 = s\<lparr>isDragging := True, isUserInteracting := True,
                      previousMouseX := fst t, previousMouseY := snd t\<rparr>
           in clearTimeout (interactionTimeout s1) s1)
      | _ \<Rightarrow> s)"

definition onTouchMove :: "(real \<times> real) list \<Rightarrow> state \<Rightarrow> js_error + state" where
  "onTouchMove touches s =
     (case touches of
        [t] \<Rightarrow> (if \<not> isDragging s then Inr s else orbit (fst t) (snd t) s)
      | _ \<Rightarrow> Inr s)"

definition onTouchEnd :: "state \<Rightarrow> state" where
  "onTouchEnd s =
     (let s1 = s\<lparr>isDragging := False\<rparr>;
          (h, s2) = setTimeout 2000 s1
      in s2\<lparr>interactionTimeout := Some h\<rparr>)"

text \<open>\<open>loadPointCloud\<close>, lines 97 to 169. It draws one random number for the choice of the
  file and hands the load to the loader; the three callbacks run later, when the host
  reports the outcome.\<close>

definition choices :: "string list" where
  "choices = [''/scene-0061.ply'', ''/scene-0355.ply'']"

definition loadPointCloud :: "state \<Rightarrow> state" where
  "loadPointCloud s =
     (let r = mathRandom s 0;
          s1 = s\<lparr>mathRandom := (\<lambda>n. mathRandom s (Suc n))\<rparr>;
          k = \<lfloor>r * real (length choices)\<rfloor>;
          choice = (if 0 \<le> k \<and> k < int (length choices) then Some (choices ! nat k) else None);
          scale_factor = (if userAgentMobile s1 then 25 else 75)
      in s1\<lparr>pendingLoads := pendingLoads s1 @ [(choice, scale_factor)]\<rparr>)"

text \<open>Adding a new \<open>Points\<close> object to the scene: \<open>pointCloud = new THREE.Points(...)\<close> and
  \<open>scene.add(pointCloud)\<close>, which throws when \<open>scene\<close> is undefined.\<close>

definition addPointCloud :: "points_obj \<Rightarrow> state \<Rightarrow> js_error + state" where
  "addPointCloud obj s =
     (let p = length (heap s);
          s1 = s\<lparr>heap := heap s @ [obj], pointCloud := Some p\<rparr>
      in case scene s1 of
           None \<Rightarrow> Inl TypeError
         | Some children \<Rightarrow> Inr (s1\<lparr>scene := Some (children @ [p])\<rparr>))"

text \<open>The success callback of the load, lines 110 to 157. The calls of lines 112 to 127
  (centre, scale, rotate) are the library's and change the geometry only; the callback is
  given the geometry as they leave it.\<close>

record geometry =
  gPosition :: "real list"
  gColor :: "real list option"

definition onLoaded :: "geometry \<Rightarrow> state \<Rightarrow> js_error + state" where
  "onLoaded g s =
     (let material =
            (if gColor g \<noteq> None
             then \<lparr>positionAttr = gPosition g, colorAttr = gColor g, matSize = 0.15,
                   matVertexColors = True, matColor = None, matTransparent = True,
                   matOpacity = 0.9, matSizeAttenuation = True,
                   geometryDisposed = False, materialDisposed = False\<rparr>
             else \<lparr>positionAttr = gPosition g, colorAttr = gColor g, matSize = 0.15,
                   matVertexColors = False, matColor = Some 0x7C3AED, matTransparent = True,
                   matOpacity = 0.8, matSizeAttenuation = True,
                   geometryDisposed = False, materialDisposed = False\<rparr>)
      in addPointCloud material s)"

text \<open>\<open>createFallbackPointCloud\<close>, lines 174 to 213. The loop pushes three coordinates and
  three colour components per point and draws three random numbers per point.\<close>

definition numPoints :: nat where
  "numPoints = 10000"

function fallbackLoop ::
  "nat \<Rightarrow> real list \<Rightarrow> real list \<Rightarrow> (nat \<Rightarrow> real) \<Rightarrow> real list \<times> real list \<times> (nat \<Rightarrow> real)" where
  "fallbackLoop i positions colors rnd =
     (if i < numPoints then
        (let angle = rnd 0 * pi * 2;
             radius = 5 + rnd 1 * 25;
             height = (rnd 2 - 0.5) * 20;
             positions' = positions @ [cos angle * radius, height, sin angle * radius];
             t = (height + 10) / 20;
             colors' = colors @ [0.486 * t + 0.3 * (1 - t),
                                 0.227 * t + 0.3 * (1 - t),
                                 0.929 * t + 0.3 * (1 - t)]
         in fallbackLoop (Suc i) positions' colors' (\<lambda>n. rnd (n + 3)))
      else (positions, colors, rnd))"
  by pat_completeness auto
termination
  by (relation "measure (\<lambda>(i, positions, colors, rnd). numPoints - i)") auto

declare fallbackLoop.simps [simp del]

definition createFallbackPointCloud :: "state \<Rightarrow> js_error + state" where
  "createFallbackPointCloud s =
     (case fallbackLoop 0 [] [] (mathRandom s) of
        (positions, colors, rnd) \<Rightarrow>
          addPointCloud
            \<lparr>positionAttr = positions, colorAttr = Some colors, matSize = 0.3,
             matVertexColors = True, matColor = None, matTransparent = True,
             matOpacity = 0.8, matSizeAttenuation = True,
             geometryDisposed = False, materialDisposed = False\<rparr>
            (s\<lparr>mathRandom := rnd\<rparr>))"




text \<open>\<open>initThreeScene\<close>, lines 45 to 92.\<close>

definition allCanvasEvents :: "canvas_event set" where
  "allCanvasEvents = {Ev_mousedown, Ev_mousemove, Ev_mouseup, Ev_mouseleave, Ev_wheel,
                      Ev_touchstart, Ev_touchmove, Ev_touchend}"

definition addListeners :: "state \<Rightarrow> state" where
  "addListeners s =
     s\<lparr>resizeListener := True,
       canvas := map_option (\<lambda>cv. cv\<lparr>listeners := listeners cv \<union> allCanvasEvents\<rparr>) (canvas s)\<rparr>"

definition initThreeScene :: "state \<Rightarrow> js_error + state" where
  "initThreeScene s =
     (case canvas s of
        None \<Rightarrow> Inr s
      | Some cv \<Rightarrow>
          (let s1 = s\<lparr>scene := Some []\<rparr>;
               s2 = s1\<lparr>camera := Some \<lparr>position = (0, 0, 0), lookTarget = None,
                                        aspect = quotient (innerWidth s1) (innerHeight s1),
                                        projectionAspect = quotient (innerWidth s1) (innerHeight s1)\<rparr>\<rparr>
           in case updateCameraPosition s2 of
                Inl e \<Rightarrow> Inl e
              | Inr s3 \<Rightarrow>
                  (let s4 = s3\<lparr>renderer := Some \<lparr>rWidth = innerWidth s3, rHeight = innerHeight s3,
                                                   pixelRatio = min (devicePixelRatio s3) 2,
                                                   framesRendered = 0, rendererDisposed = False\<rparr>\<rparr>;
                       s5 = loadPointCloud s4
                   in case animate s5 of
                        Inl e \<Rightarrow> Inl e
                      | Inr s6 \<Rightarrow> Inr (addListeners s6))))"

text \<open>\<open>destroyThreeScene\<close>, lines 379 to 419. \<open>if (animationId)\<close> is false for an undefined
  handle and for the handle 0.\<close>

definition disposeAll :: "nat list \<Rightarrow> points_obj list \<Rightarrow> points_obj list" where
  "disposeAll children h =
     fold (\<lambda>i h'. h'[i := (h' ! i)\<lparr>geometryDisposed := True, materialDisposed := True\<rparr>]) children h"

definition destroyThreeScene :: "state \<Rightarrow> js_error + state" where
  "destroyThreeScene s =
     (let s1 = (case animationId s of
                  None \<Rightarrow> s
                | Some h \<Rightarrow> if h \<noteq> 0 then cancelAnimationFrame h s else s);
          s2 = clearTimeout (interactionTimeout s1) s1;
          s3 = (case canvas s2 of
                  None \<Rightarrow> s2
                | Some cv \<Rightarrow> s2\<lparr>canvas := Some (cv\<lparr>listeners := listeners cv - allCanvasEvents\<rparr>)\<rparr>);
          s4 = s3\<lparr>resizeListener := False\<rparr>;
          s5 = (case scene s4 of
                  None \<Rightarrow> s4
                | Some children \<Rightarrow> s4\<lparr>heap := disposeAll children (heap s4)\<rparr>);
          s6 = (case renderer s5 of
                  None \<Rightarrow> s5
                | Some r \<Rightarrow> s5\<lparr>renderer := Some (r\<lparr>rendererDisposed := True\<rparr>)\<rparr>)
      in Inr s6)"

subsection \<open>The event system\<close>

text \<open>
  What the host does to the module: it calls the three exported functions, dispatches
  input events, runs the pending animation-frame callbacks, lets time pass and fires the
  timeouts that fall due, and reports the outcome of a load.

  An input event reaches a listener of the canvas only when the canvas exists, the listener
  is registered, and the canvas is a target of pointer input: an element whose
  \<open>pointer-events\<close> is \<open>none\<close> is never the target of mouse, wheel or touch input, and each
  event is hit-tested on its own (a browser keeps sending the moves of a touch to the element
  the touch began on; the model does not follow a touch from one event to the next).
  \<open>event.preventDefault()\<close> and the console output act on no variable of the module and are
  left out.
\<close>

datatype event =
    CallInit
  | CallDestroy
  | CallSetOrbitEnabled bool
  | MouseDown real real
  | MouseMove real real
  | MouseUp
  | MouseLeave
  | Wheel bool bool real
  | TouchStart "(real \<times> real) list"
  | TouchMove "(real \<times> real) list"
  | TouchEnd
  | WindowResize real real
  | Frame
  | Elapse nat
  | LoadSuccess geometry
  | LoadError

definition delivered :: "canvas_event \<Rightarrow> state \<Rightarrow> bool" where
  "delivered ev s =
     (case canvas s of
        None \<Rightarrow> False
      | Some cv \<Rightarrow> ev \<in> listeners cv \<and> pointerEvents cv \<noteq> PE_none)"

text \<open>The callback of every timeout of the module.\<close>

definition cooldownExpired :: "state \<Rightarrow> state" where
  "cooldownExpired s = s\<lparr>isUserInteracting := False\<rparr>"

definition elapse :: "nat \<Rightarrow> state \<Rightarrow> state" where
  "elapse d s =
     (let s1 = s\<lparr>now := now s + d\<rparr>;
          due = filter (\<lambda>t. snd t \<le> now s1) (timers s1);
          s2 = s1\<lparr>timers := filter (\<lambda>t. \<not> snd t \<le> now s1) (timers s1)\<rparr>
      in fold (\<lambda>t. cooldownExpired) due s2)"

fun runFrames :: "nat list \<Rightarrow> state \<Rightarrow> js_error + state" where
  "runFrames [] s = Inr s"
| "runFrames (h # hs) s = (case animate s of Inl e \<Rightarrow> Inl e | Inr s' \<Rightarrow> runFrames hs s')"

fun step :: "state \<Rightarrow> event \<Rightarrow> js_error + state" where
  "step s CallInit = initThreeScene s"
| "step s CallDestroy = destroyThreeScene s"
| "step s (CallSetOrbitEnabled b) = Inr (setOrbitEnabled b s)"
| "step s (MouseDown x y) = (if delivered Ev_mousedown s then Inr (onMouseDown x y s) else Inr s)"
| "step s (MouseMove x y) = (if delivered Ev_mousemove s then onMouseMove x y s else Inr s)"
| "step s MouseUp = (if delivered Ev_mouseup s then Inr (onMouseUp s) else Inr s)"
| "step s MouseLeave = (if delivered Ev_mouseleave s then Inr (onMouseUp s) else Inr s)"
| "step s (Wheel c m dy) = (if delivered Ev_wheel s then Inr (onWheel c m dy s) else Inr s)"
| "step s (TouchStart ts) = (if delivered Ev_touchstart s then Inr (onTouchStart ts s) else Inr s)"
| "step s (TouchMove ts) = (if delivered Ev_touchmove s then onTouchMove ts s else Inr s)"
| "step s TouchEnd = (if delivered Ev_touchend s then Inr (onTouchEnd s) else Inr s)"
| "step s (WindowResize w h) =
     (let s1 = s\<lparr>innerWidth := w, innerHeight := h\<rparr>
      in if resizeListener s1 then onWindowResize s1 else Inr s1)"
| "step s Frame = runFrames (rafQueue s) (s\<lparr>rafQueue := []\<rparr>)"
| "step s (Elapse d) = Inr (elapse d s)"
| "step s (LoadSuccess g) =
     (case pendingLoads s of
        [] \<Rightarrow> Inr s
      | l # ls \<Rightarrow> onLoaded g (s\<lparr>pendingLoads := ls\<rparr>))"
| "step s LoadError =
     (case pendingLoads s of
        [] \<Rightarrow> Inr s
      | l # ls \<Rightarrow> createFallbackPointCloud (s\<lparr>pendingLoads := ls\<rparr>))"

fun run :: "state \<Rightarrow> event list \<Rightarrow> js_error + state" where
  "run s [] = Inr s"
| "run s (e # es) = (case step s e of Inl err \<Rightarrow> Inl err | Inr s' \<Rightarrow> run s' es)"

text \<open>The state when the module has been loaded: its variables as lines 9 to 34 initialise
  them, in a host with or without the canvas, with no request, load or timeout pending.\<close>

record host =
  hostCanvas :: bool
  hostWidth :: real
  hostHeight :: real
  hostPixelRatio :: real
  hostMobile :: bool
  hostRandom :: "nat \<Rightarrow> real"

definition moduleLoaded :: "host \<Rightarrow> state" where
  "moduleLoaded h =
     \<lparr>scene = None, camera = None, renderer = None, pointCloud = None, animationId = None,
      time = 0, isUserInteracting = False, interactionTimeout = None,
      targetRotationY = 0, currentRotationY = 0,
      targetCameraDistance = 60, currentCameraDistance = 60,
      targetCameraY = 25, currentCameraY = 25,
      isDragging = False, previousMouseX = 0, previousMouseY = 0,
      cameraTheta = 0, cameraPhi = 0.4, orbitEnabled = True,
      canvas = (if hostCanvas h
                then Some \<lparr>pointerEvents = PE_unset, cursor = Cursor_unset, listeners = {}\<rparr>
                else None),
      resizeListener = False, bodyCanvasDragging = False,
      innerWidth = hostWidth h, innerHeight = hostHeight h,
      devicePixelRatio = hostPixelRatio h, userAgentMobile = hostMobile h,
      mathRandom = hostRandom h, heap = [], pendingLoads = [],
      rafQueue = [], nextRafId = 1, timers = [], nextTimerId = 1, now = 0\<rparr>"

text \<open>\<open>n\<close> animation frames in a row, each one call of \<open>animate\<close>.\<close>

fun animateN :: "nat \<Rightarrow> state \<Rightarrow> js_error + state" where
  "animateN 0 s = Inr s"
| "animateN (Suc n) s = (case animate s of Inl e \<Rightarrow> Inl e | Inr s' \<Rightarrow> animateN n s')"

subsection \<open>Predicates on states and events\<close>

text \<open>The module is \<open>ready\<close> once \<open>initThreeScene\<close> has built the scene, the camera and the
  renderer, and \<open>dormant\<close> while nothing of the host can call back into it.\<close>

definition ready :: "state \<Rightarrow> bool" where
  "ready s = (scene s \<noteq> None \<and> camera s \<noteq> None \<and> renderer s \<noteq> None)"

definition dormant :: "state \<Rightarrow> bool" where
  "dormant s =
     (rafQueue s = [] \<and> pendingLoads s = [] \<and> \<not> resizeListener s
      \<and> (case canvas s of None \<Rightarrow> True | Some cv \<Rightarrow> listeners cv = {}))"

definition wellFormed :: "state \<Rightarrow> bool" where
  "wellFormed s = (ready s \<or> dormant s)"

text \<open>The part of the state the input listeners and the timeouts work on.\<close>

definition sameInteraction :: "state \<Rightarrow> state \<Rightarrow> bool" where
  "sameInteraction s s' =
     (cameraPhi s' = cameraPhi s \<and> isDragging s' = isDragging s
      \<and> isUserInteracting s' = isUserInteracting s
      \<and> interactionTimeout s' = interactionTimeout s
      \<and> timers s' = timers s \<and> nextTimerId s' = nextTimerId s \<and> now s' = now s)"

text \<open>At most one timeout is pending, and it is the one whose handle \<open>interactionTimeout\<close>
  holds.\<close>

definition singleSlot :: "state \<Rightarrow> bool" where
  "singleSlot s =
     (length (timers s) \<le> 1 \<and> list_all (\<lambda>t. interactionTimeout s = Some (fst t)) (timers s))"








text \<open>What a run that ended without an error shows of its last state.\<close>

definition observe :: "(state \<Rightarrow> 'a) \<Rightarrow> js_error + state \<Rightarrow> 'a option" where
  "observe f r = (case r of Inl e \<Rightarrow> None | Inr s \<Rightarrow> Some (f s))"

subsection \<open>Example values\<close>

definition exampleHost :: host where
  "exampleHost = \<lparr>hostCanvas = True, hostWidth = 1280, hostHeight = 720, hostPixelRatio = 1,
                  hostMobile = False, hostRandom = (\<lambda>n. 1 / 2)\<rparr>"

definition exampleCamera :: camera_obj where
  "exampleCamera = \<lparr>position = (0, 0, 0), lookTarget = None, aspect = Some (16 / 9),
                    projectionAspect = Some (16 / 9)\<rparr>"

definition exampleRenderer :: renderer_obj where
  "exampleRenderer = \<lparr>rWidth = 1280, rHeight = 720, pixelRatio = 1, framesRendered = 0,
                      rendererDisposed = False\<rparr>"

section \<open>Properties\<close>

subsection \<open>The camera position\<close>

lemma updateCameraPosition_Some:
  "camera s = Some c \<Longrightarrow>
   updateCameraPosition s =
     Inr (s\<lparr>camera := Some (c\<lparr>position :=
               (currentCameraDistance s * cos (cameraPhi s) * sin (cameraTheta s),
                currentCameraDistance s * sin (cameraPhi s) + 5,
                currentCameraDistance s * cos (cameraPhi s) * cos (cameraTheta s)),
              lookTarget := Some (0, 0, 0)\<rparr>)\<rparr>)"
  by (simp add: updateCameraPosition_def)

lemma horizontal_radius:
  "(d * cos p * sin t)\<^sup>2 + (d * cos p * cos t)\<^sup>2 = (d * cos p)\<^sup>2" for d p t :: real
proof -
  have "(d * cos p * sin t)\<^sup>2 + (d * cos p * cos t)\<^sup>2
        = (d * cos p)\<^sup>2 * ((sin t)\<^sup>2 + (cos t)\<^sup>2)"
    by (simp only: power_mult_distrib distrib_left)
  also have "\<dots> = (d * cos p)\<^sup>2"
    by simp
  finally show ?thesis .
qed


text \<open>
  Claim C1. Whenever the camera exists, \<open>updateCameraPosition\<close> changes nothing but the
  camera: it puts it at \<open>x = d cos \<phi> sin \<theta>\<close>, \<open>y = d sin \<phi> + 5\<close>, \<open>z = d cos \<phi> cos \<theta>\<close>
  for the current distance \<open>d\<close> and angles \<open>\<theta>\<close>, \<open>\<phi>\<close>, and aims it at the origin. So
  \<open>x\<^sup>2 + z\<^sup>2 = (d cos \<phi>)\<^sup>2\<close> and the height is \<open>d sin \<phi>\<close> plus the offset 5, whatever the
  three values are.
\<close>

theorem C1_camera_position:
  assumes "camera s = Some c"
  shows "\<exists>s' c'. updateCameraPosition s = Inr s' \<and> s' = s\<lparr>camera := Some c'\<rparr>
           \<and> c' = c\<lparr>position := (currentCameraDistance s * cos (cameraPhi s) * sin (cameraTheta s),
                                  currentCameraDistance s * sin (cameraPhi s) + 5,
                                  currentCameraDistance s * cos (cameraPhi s) * cos (cameraTheta s)),
                    lookTarget := Some (0, 0, 0)\<rparr>
           \<and> (fst (position c'))\<^sup>2 + (snd (snd (position c')))\<^sup>2
               = (currentCameraDistance s * cos (cameraPhi s))\<^sup>2
           \<and> fst (snd (position c')) = currentCameraDistance s * sin (cameraPhi s) + 5"
  using assms by (simp add: updateCameraPosition_Some horizontal_radius)

theorem C1_camera_position_witness:
  "\<exists>s' c'. updateCameraPosition ((moduleLoaded exampleHost)\<lparr>camera := Some exampleCamera\<rparr>) = Inr s'
      \<and> s' = (moduleLoaded exampleHost)\<lparr>camera := Some c'\<rparr>
      \<and> position c' = (60 * cos 0.4 * sin 0, 60 * sin 0.4 + 5, 60 * cos 0.4 * cos 0)
      \<and> lookTarget c' = Some (0, 0, 0)
      \<and> (fst (position c'))\<^sup>2 + (snd (snd (position c')))\<^sup>2 = (60 * cos 0.4)\<^sup>2"
  using C1_camera_position [of "(moduleLoaded exampleHost)\<lparr>camera := Some exampleCamera\<rparr>" exampleCamera]
  by (simp add: moduleLoaded_def)

subsection \<open>The smoothing of the distance\<close>

lemma smoothing_between:
  fixes c t c' :: real
  assumes "c' = c + (t - c) * 0.08"
  shows "t - c' = 0.92 * (t - c)"
    and "c \<le> t \<Longrightarrow> c \<le> c' \<and> c' \<le> t"
    and "t \<le> c \<Longrightarrow> t \<le> c' \<and> c' \<le> c"
    and "\<bar>t - c'\<bar> \<le> \<bar>t - c\<bar>"
    and "c \<le> t \<Longrightarrow> c' - t \<le> \<bar>(t - c) * 0.08\<bar>"
    and "t \<le> c \<Longrightarrow> t - c' \<le> \<bar>(t - c) * 0.08\<bar>"
proof -
  have e: "c' = c + (2 / 25) * t - (2 / 25) * c"
    using assms by (simp add: field_simps)
  show "t - c' = 0.92 * (t - c)" using e by (simp add: field_simps)
  show "c \<le> t \<Longrightarrow> c \<le> c' \<and> c' \<le> t" using e by linarith
  show "t \<le> c \<Longrightarrow> t \<le> c' \<and> c' \<le> c" using e by linarith
  show "\<bar>t - c'\<bar> \<le> \<bar>t - c\<bar>" using e by linarith
  show "c \<le> t \<Longrightarrow> c' - t \<le> \<bar>(t - c) * 0.08\<bar>" using e by (simp add: abs_if field_simps)
  show "t \<le> c \<Longrightarrow> t - c' \<le> \<bar>(t - c) * 0.08\<bar>" using e by (simp add: abs_if field_simps)
qed


lemma animate_distance:
  assumes "camera s = Some c" and "renderer s = Some r"
  shows "\<exists>s'. animate s = Inr s'
           \<and> currentCameraDistance s' = currentCameraDistance s
                + (targetCameraDistance s - currentCameraDistance s) * 0.08
           \<and> targetCameraDistance s' = targetCameraDistance s
           \<and> camera s' \<noteq> None \<and> renderer s' \<noteq> None"
  using assms
  by (simp add: animate_def requestAnimationFrame_def updateCameraPosition_def render_def
      pulseOpacity_def Let_def split: option.splits)

lemma animateN_distance:
  "camera s \<noteq> None \<Longrightarrow> renderer s \<noteq> None \<Longrightarrow>
   \<exists>s'. animateN n s = Inr s'
       \<and> targetCameraDistance s' = targetCameraDistance s
       \<and> targetCameraDistance s - currentCameraDistance s'
           = 0.92 ^ n * (targetCameraDistance s - currentCameraDistance s)"
proof (induction n arbitrary: s)
  case 0
  then show ?case by simp
next
  case (Suc n)
  from Suc.prems obtain c r where cr: "camera s = Some c" "renderer s = Some r"
    by auto
  from animate_distance [OF cr] obtain s1 where s1:
    "animate s = Inr s1"
    "currentCameraDistance s1 = currentCameraDistance s
        + (targetCameraDistance s - currentCameraDistance s) * 0.08"
    "targetCameraDistance s1 = targetCameraDistance s"
    "camera s1 \<noteq> None" "renderer s1 \<noteq> None"
    by blast
  from Suc.IH [OF s1(4) s1(5)] obtain s2 where s2:
    "animateN n s1 = Inr s2"
    "targetCameraDistance s2 = targetCameraDistance s1"
    "targetCameraDistance s1 - currentCameraDistance s2
       = 0.92 ^ n * (targetCameraDistance s1 - currentCameraDistance s1)"
    by blast
  have "targetCameraDistance s1 - currentCameraDistance s1
        = 0.92 * (targetCameraDistance s - currentCameraDistance s)"
    using smoothing_between(1) [OF s1(2)] s1(3) by simp
  then have "targetCameraDistance s - currentCameraDistance s2
        = 0.92 ^ Suc n * (targetCameraDistance s - currentCameraDistance s)"
    using s2(3) s1(3) by simp
  with s1 s2 show ?case by simp
qed

text \<open>
  Claim C3. A frame replaces \<open>currentCameraDistance\<close> by
  \<open>currentCameraDistance + (targetCameraDistance - currentCameraDistance) * 0.08\<close> and leaves
  the target alone. The new value lies between the old one and the target, on the old
  value's side: it moves towards the target and never passes it, so the amount by which
  it passes the target (none) is within the size of the step. After \<open>n\<close> frames with the
  target unchanged the remaining gap is \<open>0.92 ^ n\<close> times the first gap.
\<close>

theorem C3_distance_smoothing:
  assumes "camera s = Some c" and "renderer s = Some r"
  shows "\<exists>s'. animate s = Inr s'
           \<and> currentCameraDistance s' = currentCameraDistance s
                + (targetCameraDistance s - currentCameraDistance s) * 0.08
           \<and> targetCameraDistance s' = targetCameraDistance s
           \<and> (currentCameraDistance s \<le> targetCameraDistance s \<longrightarrow>
                currentCameraDistance s \<le> currentCameraDistance s'
                \<and> currentCameraDistance s' \<le> targetCameraDistance s)
           \<and> (targetCameraDistance s \<le> currentCameraDistance s \<longrightarrow>
                targetCameraDistance s \<le> currentCameraDistance s'
                \<and> currentCameraDistance s' \<le> currentCameraDistance s)
           \<and> \<bar>targetCameraDistance s - currentCameraDistance s'\<bar>
                \<le> \<bar>targetCameraDistance s - currentCameraDistance s\<bar>
           \<and> (currentCameraDistance s \<le> targetCameraDistance s \<longrightarrow>
                currentCameraDistance s' - targetCameraDistance s
                  \<le> \<bar>(targetCameraDistance s - currentCameraDistance s) * 0.08\<bar>)
           \<and> (targetCameraDistance s \<le> currentCameraDistance s \<longrightarrow>
                targetCameraDistance s - currentCameraDistance s'
                  \<le> \<bar>(targetCameraDistance s - currentCameraDistance s) * 0.08\<bar>)
           \<and> (\<forall>n. \<exists>sn. animateN n s = Inr sn
                  \<and> targetCameraDistance sn = targetCameraDistance s
                  \<and> targetCameraDistance s - currentCameraDistance sn
                      = 0.92 ^ n * (targetCameraDistance s - currentCameraDistance s))"
proof -
  from animate_distance [OF assms] obtain s' where s':
    "animate s = Inr s'"
    "currentCameraDistance s' = currentCameraDistance s
        + (targetCameraDistance s - currentCameraDistance s) * 0.08"
    "targetCameraDistance s' = targetCameraDistance s"
    by blast
  have iter: "\<forall>n. \<exists>sn. animateN n s = Inr sn
                  \<and> targetCameraDistance sn = targetCameraDistance s
                  \<and> targetCameraDistance s - currentCameraDistance sn
                      = 0.92 ^ n * (targetCameraDistance s - currentCameraDistance s)"
    using animateN_distance [of s] assms by simp
  note b = smoothing_between [OF s'(2)]
  show ?thesis
    using s' iter b(2) b(3) b(4) b(5) b(6) by (intro exI [of _ s']) blast
qed

theorem C3_distance_smoothing_witness:
  "\<exists>s'. animate ((moduleLoaded exampleHost)\<lparr>camera := Some exampleCamera,
             renderer := Some exampleRenderer, targetCameraDistance := 70\<rparr>) = Inr s'
       \<and> currentCameraDistance s' = 60.8 \<and> targetCameraDistance s' = 70"
  using C3_distance_smoothing [of "(moduleLoaded exampleHost)\<lparr>camera := Some exampleCamera,
             renderer := Some exampleRenderer, targetCameraDistance := 70\<rparr>" exampleCamera exampleRenderer]
  by (auto simp: moduleLoaded_def)


subsection \<open>The wheel\<close>

lemma onWheel_idle: "\<not> c \<Longrightarrow> \<not> m \<Longrightarrow> onWheel c m dy s = s"
  by (simp add: onWheel_def)

lemma onWheel_zoom:
  "c \<or> m \<Longrightarrow>
   onWheel c m dy s =
     s\<lparr>isUserInteracting := True,
       timers := timers (clearTimeout (interactionTimeout s) s) @ [(nextTimerId s, now s + 2000)],
       targetCameraDistance := max 20 (min 120 (targetCameraDistance s + dy * 0.05)),
       nextTimerId := Suc (nextTimerId s),
       interactionTimeout := Some (nextTimerId s)\<rparr>"
  by (cases "interactionTimeout s") (auto simp: onWheel_def clearTimeout_def setTimeout_def Let_def)

lemma onMouseUp_eq:
  "onMouseUp s =
     s\<lparr>isDragging := False, bodyCanvasDragging := False,
       timers := timers (clearTimeout (interactionTimeout s) s) @ [(nextTimerId s, now s + 2000)],
       nextTimerId := Suc (nextTimerId s),
       interactionTimeout := Some (nextTimerId s)\<rparr>"
  by (cases "interactionTimeout s") (auto simp: onMouseUp_def clearTimeout_def setTimeout_def Let_def)

lemma elapse_due:
  "(h, due) \<in> set (timers s) \<Longrightarrow> due \<le> now s + d \<Longrightarrow> \<not> isUserInteracting (elapse d s)"
proof -
  have f: "isUserInteracting (fold (\<lambda>t. cooldownExpired) ts s') = (ts = [] \<and> isUserInteracting s')"
    for ts :: "(nat \<times> nat) list" and s'
    by (induction ts arbitrary: s') (auto simp: cooldownExpired_def)
  assume "(h, due) \<in> set (timers s)" "due \<le> now s + d"
  then have "filter (\<lambda>t. snd t \<le> now s + d) (timers s) \<noteq> []"
    by (force simp: filter_empty_conv)
  then show ?thesis
    by (simp add: elapse_def Let_def f)
qed

text \<open>
  Claim C6. A wheel event with neither Ctrl nor Meta held changes nothing at all: the
  target distance stays and \<open>isUserInteracting\<close> is not set. With a modifier held the
  listener sets \<open>isUserInteracting\<close>, adds \<open>deltaY * 0.05\<close> to the target distance and clamps
  it to \<open>[20, 120]\<close>, cancels the timeout of the slot and sets the same timeout a mouse
  release sets, due 2000 ms later, whose callback clears \<open>isUserInteracting\<close>. From a target
  of 60, \<open>deltaY = 200\<close> gives 70, which the clamp keeps.
\<close>

theorem C6_wheel:
  "(\<not> c \<and> \<not> m \<longrightarrow> onWheel c m dy s = s \<and> step s (Wheel c m dy) = Inr s)
   \<and> (c \<or> m \<longrightarrow>
        onWheel c m dy s =
          s\<lparr>isUserInteracting := True,
            timers := timers (clearTimeout (interactionTimeout s) s) @ [(nextTimerId s, now s + 2000)],
            targetCameraDistance := max 20 (min 120 (targetCameraDistance s + dy * 0.05)),
            nextTimerId := Suc (nextTimerId s),
            interactionTimeout := Some (nextTimerId s)\<rparr>
        \<and> isUserInteracting (onWheel c m dy s)
        \<and> 20 \<le> targetCameraDistance (onWheel c m dy s)
        \<and> targetCameraDistance (onWheel c m dy s) \<le> 120
        \<and> timers (onWheel c m dy s) = timers (onMouseUp s)
        \<and> interactionTimeout (onWheel c m dy s) = interactionTimeout (onMouseUp s)
        \<and> \<not> isUserInteracting (elapse 2000 (onWheel c m dy s))
        \<and> (targetCameraDistance s = 60 \<and> dy = 200 \<longrightarrow>
              targetCameraDistance s + dy * 0.05 = 70
              \<and> targetCameraDistance (onWheel c m dy s) = 70))"
proof (intro conjI impI)
  assume "\<not> c \<and> \<not> m"
  then show "onWheel c m dy s = s" by (simp add: onWheel_idle)
  from \<open>\<not> c \<and> \<not> m\<close> show "step s (Wheel c m dy) = Inr s" by (simp add: onWheel_idle)
next
  assume cm: "c \<or> m"
  note z = onWheel_zoom [OF cm, of dy s]
  show "onWheel c m dy s =
          s\<lparr>isUserInteracting := True,
            timers := timers (clearTimeout (interactionTimeout s) s) @ [(nextTimerId s, now s + 2000)],
            targetCameraDistance := max 20 (min 120 (targetCameraDistance s + dy * 0.05)),
            nextTimerId := Suc (nextTimerId s),
            interactionTimeout := Some (nextTimerId s)\<rparr>"
    by (rule z)
  show "isUserInteracting (onWheel c m dy s)" by (simp add: z)
  show "20 \<le> targetCameraDistance (onWheel c m dy s)" by (simp add: z)
  show "targetCameraDistance (onWheel c m dy s) \<le> 120" by (simp add: z)
  show "timers (onWheel c m dy s) = timers (onMouseUp s)" by (simp add: z onMouseUp_eq)
  show "interactionTimeout (onWheel c m dy s) = interactionTimeout (onMouseUp s)"
    by (simp add: z onMouseUp_eq)
  have "(nextTimerId s, now s + 2000) \<in> set (timers (onWheel c m dy s))"
    by (simp add: z)
  moreover have "now (onWheel c m dy s) = now s" by (simp add: z)
  ultimately show "\<not> isUserInteracting (elapse 2000 (onWheel c m dy s))"
    using elapse_due [of "nextTimerId s" "now s + 2000" "onWheel c m dy s" 2000] by simp
next
  assume "c \<or> m" "targetCameraDistance s = 60 \<and> dy = 200"
  then show "targetCameraDistance s + dy * 0.05 = 70" by simp
next
  assume cm: "c \<or> m" and "targetCameraDistance s = 60 \<and> dy = 200"
  then show "targetCameraDistance (onWheel c m dy s) = 70"
    by (simp add: onWheel_zoom [OF cm])
qed

theorem C6_wheel_witness:
  "onWheel False False 200 (moduleLoaded exampleHost) = moduleLoaded exampleHost
   \<and> targetCameraDistance (onWheel True False 200 (moduleLoaded exampleHost)) = 70
   \<and> isUserInteracting (onWheel True False 200 (moduleLoaded exampleHost))
   \<and> timers (onWheel True False 200 (moduleLoaded exampleHost)) = [(1, 2000)]
   \<and> \<not> isUserInteracting (elapse 2000 (onWheel True False 200 (moduleLoaded exampleHost)))"
proof -
  have f: "targetCameraDistance (moduleLoaded exampleHost) = 60"
    "timers (moduleLoaded exampleHost) = []" "nextTimerId (moduleLoaded exampleHost) = 1"
    "now (moduleLoaded exampleHost) = 0" "interactionTimeout (moduleLoaded exampleHost) = None"
    by (simp_all add: moduleLoaded_def)
  have "timers (clearTimeout None (moduleLoaded exampleHost)) = []"
    by (simp add: clearTimeout_def f)
  then show ?thesis
    using C6_wheel [of False False 200 "moduleLoaded exampleHost"]
          C6_wheel [of True False 200 "moduleLoaded exampleHost"] f
    by (simp add: elapse_def cooldownExpired_def Let_def)
qed

subsection \<open>The mouse move\<close>

lemma orbit_Some:
  "camera s = Some c \<Longrightarrow>
   orbit x y s =
     Inr (s\<lparr>cameraTheta := cameraTheta s - (x - previousMouseX s) * 0.005,
            cameraPhi := max 0.1 (min 1.4 (cameraPhi s + (y - previousMouseY s) * 0.003)),
            camera := Some (c\<lparr>position :=
              (currentCameraDistance s
                 * cos (max 0.1 (min 1.4 (cameraPhi s + (y - previousMouseY s) * 0.003)))
                 * sin (cameraTheta s - (x - previousMouseX s) * 0.005),
               currentCameraDistance s
                 * sin (max 0.1 (min 1.4 (cameraPhi s + (y - previousMouseY s) * 0.003))) + 5,
               currentCameraDistance s
                 * cos (max 0.1 (min 1.4 (cameraPhi s + (y - previousMouseY s) * 0.003)))
                 * cos (cameraTheta s - (x - previousMouseX s) * 0.005)),
              lookTarget := Some (0, 0, 0)\<rparr>),
            previousMouseX := x, previousMouseY := y\<rparr>)"
  by (simp add: orbit_def updateCameraPosition_def Let_def)

text \<open>
  Claim C7. While \<open>isDragging\<close> holds, a mouse move at \<open>(x, y)\<close> with the deltas \<open>dx\<close>, \<open>dy\<close>
  from the stored pointer position sets \<open>cameraTheta\<close> to \<open>cameraTheta - dx * 0.005\<close> and
  \<open>cameraPhi\<close> to \<open>cameraPhi + dy * 0.003\<close> clamped to \<open>[0.1, 1.4]\<close>, puts the camera at the
  position of the new angles within the same call (a further \<open>updateCameraPosition\<close> changes
  nothing), and stores \<open>(x, y)\<close> as the pointer position. From \<open>cameraTheta = 0\<close>,
  \<open>cameraPhi = 0.4\<close>, the deltas \<open>(100, 0)\<close> give \<open>cameraTheta = - 0.5\<close>. When \<open>isDragging\<close> is
  false the move changes nothing.
\<close>

theorem C7_mouse_move:
  assumes "camera s = Some c"
  shows "(isDragging s \<longrightarrow>
           (\<exists>s' c'. onMouseMove x y s = Inr s'
              \<and> s' = s\<lparr>cameraTheta := cameraTheta s - (x - previousMouseX s) * 0.005,
                       cameraPhi := max 0.1 (min 1.4 (cameraPhi s + (y - previousMouseY s) * 0.003)),
                       camera := Some c', previousMouseX := x, previousMouseY := y\<rparr>
              \<and> c' = c\<lparr>position :=
                         (currentCameraDistance s * cos (cameraPhi s') * sin (cameraTheta s'),
                          currentCameraDistance s * sin (cameraPhi s') + 5,
                          currentCameraDistance s * cos (cameraPhi s') * cos (cameraTheta s')),
                       lookTarget := Some (0, 0, 0)\<rparr>
              \<and> cameraTheta s' = cameraTheta s - (x - previousMouseX s) * 0.005
              \<and> cameraPhi s' = max 0.1 (min 1.4 (cameraPhi s + (y - previousMouseY s) * 0.003))
              \<and> previousMouseX s' = x \<and> previousMouseY s' = y
              \<and> updateCameraPosition s' = Inr s'
              \<and> (cameraTheta s = 0 \<and> cameraPhi s = 0.4
                    \<and> x - previousMouseX s = 100 \<and> y - previousMouseY s = 0 \<longrightarrow>
                  cameraTheta s' = - 0.5 \<and> cameraPhi s' = 0.4)))
         \<and> (\<not> isDragging s \<longrightarrow> onMouseMove x y s = Inr s)"
proof (intro conjI impI)
  assume "isDragging s"
  then have "onMouseMove x y s = orbit x y s"
    by (simp add: onMouseMove_def)
  then show "\<exists>s' c'. onMouseMove x y s = Inr s'
              \<and> s' = s\<lparr>cameraTheta := cameraTheta s - (x - previousMouseX s) * 0.005,
                       cameraPhi := max 0.1 (min 1.4 (cameraPhi s + (y - previousMouseY s) * 0.003)),
                       camera := Some c', previousMouseX := x, previousMouseY := y\<rparr>
              \<and> c' = c\<lparr>position :=
                         (currentCameraDistance s * cos (cameraPhi s') * sin (cameraTheta s'),
                          currentCameraDistance s * sin (cameraPhi s') + 5,
                          currentCameraDistance s * cos (cameraPhi s') * cos (cameraTheta s')),
                       lookTarget := Some (0, 0, 0)\<rparr>
              \<and> cameraTheta s' = cameraTheta s - (x - previousMouseX s) * 0.005
              \<and> cameraPhi s' = max 0.1 (min 1.4 (cameraPhi s + (y - previousMouseY s) * 0.003))
              \<and> previousMouseX s' = x \<and> previousMouseY s' = y
              \<and> updateCameraPosition s' = Inr s'
              \<and> (cameraTheta s = 0 \<and> cameraPhi s = 0.4
                    \<and> x - previousMouseX s = 100 \<and> y - previousMouseY s = 0 \<longrightarrow>
                  cameraTheta s' = - 0.5 \<and> cameraPhi s' = 0.4)"
    using assms by (simp add: orbit_Some updateCameraPosition_def)
next
  assume "\<not> isDragging s"
  then show "onMouseMove x y s = Inr s"
    by (simp add: onMouseMove_def)
qed

theorem C7_mouse_move_witness:
  "(\<exists>s'. onMouseMove 110 20
            ((moduleLoaded exampleHost)\<lparr>camera := Some exampleCamera, isDragging := True,
               previousMouseX := 10, previousMouseY := 20\<rparr>) = Inr s'
        \<and> cameraTheta s' = - 0.5 \<and> cameraPhi s' = 0.4
        \<and> previousMouseX s' = 110 \<and> previousMouseY s' = 20
        \<and> updateCameraPosition s' = Inr s')
   \<and> onMouseMove 110 20 ((moduleLoaded exampleHost)\<lparr>camera := Some exampleCamera\<rparr>)
       = Inr ((moduleLoaded exampleHost)\<lparr>camera := Some exampleCamera\<rparr>)"
proof -
  have f: "cameraTheta (moduleLoaded exampleHost) = 0" "cameraPhi (moduleLoaded exampleHost) = 0.4"
    "\<not> isDragging (moduleLoaded exampleHost)"
    by (simp_all add: moduleLoaded_def)
  have a: "\<exists>s'. onMouseMove 110 20
            ((moduleLoaded exampleHost)\<lparr>camera := Some exampleCamera, isDragging := True,
               previousMouseX := 10, previousMouseY := 20\<rparr>) = Inr s'
        \<and> cameraTheta s' = - 0.5 \<and> cameraPhi s' = 0.4
        \<and> previousMouseX s' = 110 \<and> previousMouseY s' = 20
        \<and> updateCameraPosition s' = Inr s'"
    using C7_mouse_move [of "(moduleLoaded exampleHost)\<lparr>camera := Some exampleCamera,
               isDragging := True, previousMouseX := 10, previousMouseY := 20\<rparr>" exampleCamera 110 20]
      f
    by fastforce
  have b: "onMouseMove 110 20 ((moduleLoaded exampleHost)\<lparr>camera := Some exampleCamera\<rparr>)
       = Inr ((moduleLoaded exampleHost)\<lparr>camera := Some exampleCamera\<rparr>)"
    using C7_mouse_move [of "(moduleLoaded exampleHost)\<lparr>camera := Some exampleCamera\<rparr>" exampleCamera 110 20]
      f
    by simp
  from a b show ?thesis by (rule conjI)
qed

subsection \<open>The fallback point cloud\<close>









subsection \<open>The event system never fails, and the vertical angle stays clamped\<close>

lemma updateCameraPosition_ready:
  "camera s \<noteq> None \<Longrightarrow> \<exists>s' c'. updateCameraPosition s = Inr s' \<and> s' = s\<lparr>camera := Some c'\<rparr>"
  by (auto simp: updateCameraPosition_def split: option.splits)

lemma animate_ready:
  assumes "ready s"
  shows "\<exists>s'. animate s = Inr s' \<and> ready s' \<and> sameInteraction s s'
           \<and> canvas s' = canvas s \<and> resizeListener s' = resizeListener s
           \<and> pendingLoads s' = pendingLoads s \<and> orbitEnabled s' = orbitEnabled s"
  using assms
  by (auto simp: ready_def animate_def requestAnimationFrame_def updateCameraPosition_def
      render_def pulseOpacity_def sameInteraction_def Let_def split: option.splits)

lemma runFrames_ready:
  "ready s \<Longrightarrow>
   \<exists>s'. runFrames q s = Inr s' \<and> ready s' \<and> sameInteraction s s'
       \<and> canvas s' = canvas s \<and> resizeListener s' = resizeListener s
       \<and> pendingLoads s' = pendingLoads s \<and> orbitEnabled s' = orbitEnabled s"
proof (induction q arbitrary: s)
  case Nil
  then show ?case by (simp add: sameInteraction_def)
next
  case (Cons h q)
  from animate_ready [OF Cons.prems] obtain s1 where s1:
    "animate s = Inr s1" "ready s1" "sameInteraction s s1" "canvas s1 = canvas s"
    "resizeListener s1 = resizeListener s" "pendingLoads s1 = pendingLoads s"
    "orbitEnabled s1 = orbitEnabled s"
    by blast
  from Cons.IH [OF s1(2)] obtain s2 where s2:
    "runFrames q s1 = Inr s2" "ready s2" "sameInteraction s1 s2" "canvas s2 = canvas s1"
    "resizeListener s2 = resizeListener s1" "pendingLoads s2 = pendingLoads s1"
    "orbitEnabled s2 = orbitEnabled s1"
    by blast
  from s1 s2 show ?case
    by (auto simp: sameInteraction_def)
qed

lemma initThreeScene_canvas:
  assumes "canvas s = Some cv"
  shows "\<exists>s'. initThreeScene s = Inr s' \<and> ready s' \<and> sameInteraction s s'
           \<and> canvas s' = Some (cv\<lparr>listeners := listeners cv \<union> allCanvasEvents\<rparr>)
           \<and> resizeListener s'"
proof -
  let ?s2 = "s\<lparr>scene := Some [],
               camera := Some \<lparr>position = (0, 0, 0), lookTarget = None,
                                aspect = quotient (innerWidth s) (innerHeight s),
                                projectionAspect = quotient (innerWidth s) (innerHeight s)\<rparr>\<rparr>"
  obtain s3 c' where s3: "updateCameraPosition ?s2 = Inr s3" "s3 = ?s2\<lparr>camera := Some c'\<rparr>"
    using updateCameraPosition_ready [of ?s2] by auto
  let ?s5 = "loadPointCloud (s3\<lparr>renderer := Some \<lparr>rWidth = innerWidth s3, rHeight = innerHeight s3,
                                                   pixelRatio = min (devicePixelRatio s3) 2,
                                                   framesRendered = 0, rendererDisposed = False\<rparr>\<rparr>)"
  have r5: "ready ?s5" and i5: "sameInteraction s ?s5" and c5: "canvas ?s5 = Some cv"
    using s3(2) assms by (simp_all add: ready_def loadPointCloud_def Let_def sameInteraction_def)
  from animate_ready [OF r5] obtain s6 where s6:
    "animate ?s5 = Inr s6" "ready s6" "sameInteraction ?s5 s6" "canvas s6 = canvas ?s5"
    by blast
  have "initThreeScene s = Inr (addListeners s6)"
    using assms s3(1) s6(1) by (simp add: initThreeScene_def Let_def)
  moreover have "ready (addListeners s6)" "sameInteraction s (addListeners s6)"
    using s6(2) s6(3) i5 by (simp_all add: ready_def addListeners_def sameInteraction_def)
  moreover have "canvas (addListeners s6) = Some (cv\<lparr>listeners := listeners cv \<union> allCanvasEvents\<rparr>)"
    "resizeListener (addListeners s6)"
    using s6(4) c5 by (simp_all add: addListeners_def)
  ultimately show ?thesis by blast
qed


lemma sameInteraction_trans:
  "sameInteraction s s1 \<Longrightarrow> sameInteraction s1 s2 \<Longrightarrow> sameInteraction s s2"
  by (simp add: sameInteraction_def)

lemma animate_Inr:
  "animate s = Inr s' \<Longrightarrow> sameInteraction s s'"
  by (auto simp: animate_def requestAnimationFrame_def updateCameraPosition_def
      render_def pulseOpacity_def sameInteraction_def Let_def split: option.splits if_splits)

lemma runFrames_Inr:
  "runFrames q s = Inr s' \<Longrightarrow> sameInteraction s s'"
proof (induction q arbitrary: s)
  case Nil
  then show ?case by (simp add: sameInteraction_def)
next
  case (Cons h q)
  then obtain s1 where "animate s = Inr s1" "runFrames q s1 = Inr s'"
    by (auto split: sum.splits)
  then show ?case
    using animate_Inr Cons.IH sameInteraction_trans by blast
qed

lemma initThreeScene_Inr:
  "initThreeScene s = Inr s' \<Longrightarrow> sameInteraction s s'"
proof (cases "canvas s")
  case None
  assume "initThreeScene s = Inr s'"
  with None show ?thesis
    by (simp add: initThreeScene_def sameInteraction_def)
next
  case (Some cv)
  assume "initThreeScene s = Inr s'"
  with initThreeScene_canvas [OF Some] show ?thesis
    by auto
qed

lemma addPointCloud_Inr:
  "addPointCloud obj s = Inr s' \<Longrightarrow>
     sameInteraction s s' \<and> camera s' = camera s \<and> renderer s' = renderer s \<and> scene s' \<noteq> None
     \<and> scene s \<noteq> None"
  by (auto simp: addPointCloud_def sameInteraction_def Let_def split: option.splits)

lemma addPointCloud_ready:
  "scene s \<noteq> None \<Longrightarrow> \<exists>s'. addPointCloud obj s = Inr s'"
  by (auto simp: addPointCloud_def Let_def split: option.splits)

lemma onLoaded_Inr:
  "onLoaded g s = Inr s' \<Longrightarrow>
     sameInteraction s s' \<and> camera s' = camera s \<and> renderer s' = renderer s \<and> scene s' \<noteq> None"
  unfolding onLoaded_def Let_def using addPointCloud_Inr by blast

lemma createFallbackPointCloud_Inr:
  "createFallbackPointCloud s = Inr s' \<Longrightarrow>
     sameInteraction s s' \<and> camera s' = camera s \<and> renderer s' = renderer s \<and> scene s' \<noteq> None"
proof (cases "fallbackLoop 0 [] [] (mathRandom s)")
  case (fields ps cs rnd)
  assume "createFallbackPointCloud s = Inr s'"
  with fields have
    "addPointCloud
        \<lparr>positionAttr = ps, colorAttr = Some cs, matSize = 0.3,
         matVertexColors = True, matColor = None, matTransparent = True,
         matOpacity = 0.8, matSizeAttenuation = True,
         geometryDisposed = False, materialDisposed = False\<rparr>
        (s\<lparr>mathRandom := rnd\<rparr>) = Inr s'"
    by (simp add: createFallbackPointCloud_def)
  from addPointCloud_Inr [OF this] show ?thesis
    by (simp add: sameInteraction_def)
qed

lemma createFallbackPointCloud_ready:
  "scene s \<noteq> None \<Longrightarrow> \<exists>s'. createFallbackPointCloud s = Inr s'"
proof (cases "fallbackLoop 0 [] [] (mathRandom s)")
  case (fields ps cs rnd)
  assume "scene s \<noteq> None"
  then have "scene (s\<lparr>mathRandom := rnd\<rparr>) \<noteq> None" by simp
  from addPointCloud_ready [OF this] fields show ?thesis
    by (simp add: createFallbackPointCloud_def)
qed

lemma onLoaded_ready:
  "scene s \<noteq> None \<Longrightarrow> \<exists>s'. onLoaded g s = Inr s'"
  unfolding onLoaded_def Let_def using addPointCloud_ready by blast

lemma orbit_Inr:
  "orbit x y s = Inr s' \<Longrightarrow>
     cameraPhi s' = max 0.1 (min 1.4 (cameraPhi s + (y - previousMouseY s) * 0.003))
     \<and> cameraTheta s' = cameraTheta s - (x - previousMouseX s) * 0.005
     \<and> isDragging s' = isDragging s \<and> isUserInteracting s' = isUserInteracting s
     \<and> interactionTimeout s' = interactionTimeout s
     \<and> timers s' = timers s \<and> nextTimerId s' = nextTimerId s \<and> now s' = now s
     \<and> scene s' = scene s \<and> renderer s' = renderer s \<and> camera s' \<noteq> None"
  by (auto simp: orbit_def updateCameraPosition_def Let_def split: option.splits)

lemma orbit_ready:
  "camera s \<noteq> None \<Longrightarrow> \<exists>s'. orbit x y s = Inr s'"
  by (auto simp: orbit_def updateCameraPosition_def Let_def split: option.splits)

lemma clamp_range: "0.1 \<le> max 0.1 (min 1.4 v) \<and> max 0.1 (min 1.4 v) \<le> 1.4" for v :: real
  by simp

lemma destroyThreeScene_Inr:
  "\<exists>s'. destroyThreeScene s = Inr s' \<and> cameraPhi s' = cameraPhi s
       \<and> isDragging s' = isDragging s \<and> isUserInteracting s' = isUserInteracting s
       \<and> interactionTimeout s' = interactionTimeout s
       \<and> timers s' = timers (clearTimeout (interactionTimeout s) s)
       \<and> nextTimerId s' = nextTimerId s \<and> now s' = now s
       \<and> (ready s \<longrightarrow> ready s') \<and> (dormant s \<longrightarrow> dormant s')"
  by (auto simp: destroyThreeScene_def cancelAnimationFrame_def clearTimeout_def Let_def
      ready_def dormant_def split: option.splits)


lemma listeners_ready:
  "ready (onMouseDown x y s) = ready s" "ready (onMouseUp s) = ready s"
  "ready (onWheel c m dy s) = ready s" "ready (onTouchStart ts s) = ready s"
  "ready (onTouchEnd s) = ready s" "ready (elapse d s) = ready s"
  "ready (setOrbitEnabled b s) = ready s"
proof -
  have f: "ready (fold (\<lambda>t. cooldownExpired) ts s') = ready s'" for ts :: "(nat \<times> nat) list" and s'
    by (induction ts arbitrary: s') (simp_all add: cooldownExpired_def ready_def)
  show "ready (onMouseDown x y s) = ready s"
    by (simp add: onMouseDown_def clearTimeout_def ready_def Let_def split: option.splits)
  show "ready (onMouseUp s) = ready s"
    by (simp add: onMouseUp_def clearTimeout_def setTimeout_def ready_def Let_def split: option.splits)
  show "ready (onWheel c m dy s) = ready s"
    by (simp add: onWheel_def clearTimeout_def setTimeout_def ready_def Let_def split: option.splits)
  show "ready (onTouchStart ts s) = ready s"
    by (simp add: onTouchStart_def clearTimeout_def ready_def Let_def split: option.splits list.splits)
  show "ready (onTouchEnd s) = ready s"
    by (simp add: onTouchEnd_def setTimeout_def ready_def Let_def)
  show "ready (elapse d s) = ready s"
    by (simp add: elapse_def Let_def f) (simp add: ready_def)
  show "ready (setOrbitEnabled b s) = ready s"
    by (simp add: setOrbitEnabled_def ready_def Let_def split: option.splits)
qed

lemma step_ready:
  assumes "ready s"
  shows "\<exists>s'. step s e = Inr s' \<and> ready s'"
proof (cases e)
  case CallInit
  show ?thesis
  proof (cases "canvas s")
    case None
    with CallInit assms show ?thesis by (simp add: initThreeScene_def)
  next
    case (Some cv)
    with CallInit initThreeScene_canvas [OF Some] show ?thesis by auto
  qed
next
  case CallDestroy
  with assms destroyThreeScene_Inr [of s] show ?thesis by auto
next
  case (MouseMove x y)
  from assms have "camera s \<noteq> None" by (simp add: ready_def)
  from orbit_ready [OF this, of x y] obtain s' where s': "orbit x y s = Inr s'" by blast
  from orbit_Inr [OF s'] assms have "ready s'" by (simp add: ready_def)
  with MouseMove s' assms show ?thesis by (auto simp: onMouseMove_def)
next
  case (TouchMove ts)
  show ?thesis
  proof (cases "\<exists>t. ts = [t]")
    case True
    then obtain t where t: "ts = [t]" by blast
    from assms have "camera s \<noteq> None" by (simp add: ready_def)
    from orbit_ready [OF this, of "fst t" "snd t"] obtain s' where s': "orbit (fst t) (snd t) s = Inr s'"
      by blast
    from orbit_Inr [OF s'] assms have "ready s'" by (simp add: ready_def)
    with TouchMove t s' assms show ?thesis by (auto simp: onTouchMove_def)
  next
    case False
    with TouchMove assms show ?thesis
      by (auto simp: onTouchMove_def split: list.splits)
  qed
next
  case (WindowResize w h)
  with assms show ?thesis
    by (auto simp: onWindowResize_def ready_def Let_def split: option.splits)
next
  case Frame
  from assms have "ready (s\<lparr>rafQueue := []\<rparr>)" by (simp add: ready_def)
  from runFrames_ready [OF this, of "rafQueue s"] Frame show ?thesis by auto
next
  case (LoadSuccess g)
  show ?thesis
  proof (cases "pendingLoads s")
    case Nil
    with LoadSuccess assms show ?thesis by simp
  next
    case (Cons l ls)
    from assms have "scene (s\<lparr>pendingLoads := ls\<rparr>) \<noteq> None" by (simp add: ready_def)
    from onLoaded_ready [OF this, of g] obtain s' where s': "onLoaded g (s\<lparr>pendingLoads := ls\<rparr>) = Inr s'"
      by blast
    from onLoaded_Inr [OF s'] assms have "ready s'" by (simp add: ready_def)
    with LoadSuccess Cons s' show ?thesis by simp
  qed
next
  case LoadError
  show ?thesis
  proof (cases "pendingLoads s")
    case Nil
    with LoadError assms show ?thesis by simp
  next
    case (Cons l ls)
    from assms have "scene (s\<lparr>pendingLoads := ls\<rparr>) \<noteq> None" by (simp add: ready_def)
    from createFallbackPointCloud_ready [OF this] obtain s' where
      s': "createFallbackPointCloud (s\<lparr>pendingLoads := ls\<rparr>) = Inr s'"
      by blast
    from createFallbackPointCloud_Inr [OF s'] assms have "ready s'" by (simp add: ready_def)
    with LoadError Cons s' show ?thesis by simp
  qed
qed (use assms in \<open>simp_all add: listeners_ready\<close>)

lemma not_delivered_dormant: "dormant s \<Longrightarrow> \<not> delivered ev s"
  by (auto simp: dormant_def delivered_def split: option.splits)

lemma step_dormant:
  assumes "dormant s"
  shows "\<exists>s'. step s e = Inr s' \<and> wellFormed s'"
proof (cases e)
  case CallInit
  show ?thesis
  proof (cases "canvas s")
    case None
    with CallInit assms show ?thesis by (simp add: initThreeScene_def wellFormed_def)
  next
    case (Some cv)
    with CallInit initThreeScene_canvas [OF Some] show ?thesis by (auto simp: wellFormed_def)
  qed
next
  case CallDestroy
  with assms destroyThreeScene_Inr [of s] show ?thesis by (auto simp: wellFormed_def)
next
  case (CallSetOrbitEnabled b)
  with assms show ?thesis
    by (auto simp: wellFormed_def setOrbitEnabled_def dormant_def Let_def split: option.splits)
next
  case (WindowResize w h)
  with assms show ?thesis
    by (auto simp: wellFormed_def dormant_def Let_def)
next
  case Frame
  with assms show ?thesis
    by (auto simp: wellFormed_def dormant_def)
next
  case (Elapse d)
  have f: "dormant (fold (\<lambda>t. cooldownExpired) ts s') = dormant s'" for ts :: "(nat \<times> nat) list" and s'
    by (induction ts arbitrary: s') (simp_all add: cooldownExpired_def dormant_def)
  from assms have "dormant (elapse d s)"
    by (simp add: elapse_def Let_def f) (simp add: dormant_def)
  with Elapse show ?thesis by (simp add: wellFormed_def)
next
  case (LoadSuccess g)
  with assms show ?thesis by (auto simp: wellFormed_def dormant_def)
next
  case LoadError
  with assms show ?thesis by (auto simp: wellFormed_def dormant_def)
qed (use assms not_delivered_dormant in \<open>simp_all add: wellFormed_def\<close>)

lemma step_wellFormed:
  "wellFormed s \<Longrightarrow> \<exists>s'. step s e = Inr s' \<and> wellFormed s'"
  using step_ready [of s e] step_dormant [of s e] by (auto simp: wellFormed_def)

lemma run_wellFormed:
  "wellFormed s \<Longrightarrow> \<exists>s'. run s es = Inr s' \<and> wellFormed s'"
proof (induction es arbitrary: s)
  case Nil
  then show ?case by simp
next
  case (Cons e es)
  from step_wellFormed [OF Cons.prems, of e] obtain s1 where "step s e = Inr s1" "wellFormed s1"
    by blast
  with Cons.IH [of s1] show ?case by simp
qed

lemma moduleLoaded_wellFormed: "wellFormed (moduleLoaded h)"
  by (simp add: wellFormed_def dormant_def moduleLoaded_def)


lemma fold_cooldownExpired:
  "fold (\<lambda>t. cooldownExpired) ts s
     = (if ts = [] then s else s\<lparr>isUserInteracting := False\<rparr>)" for ts :: "(nat \<times> nat) list"
  by (induction ts arbitrary: s) (simp_all add: cooldownExpired_def)

lemma listeners_phi:
  "cameraPhi (onMouseDown x y s) = cameraPhi s" "cameraPhi (onMouseUp s) = cameraPhi s"
  "cameraPhi (onWheel c m dy s) = cameraPhi s" "cameraPhi (onTouchStart ts s) = cameraPhi s"
  "cameraPhi (onTouchEnd s) = cameraPhi s" "cameraPhi (elapse d s) = cameraPhi s"
  "cameraPhi (setOrbitEnabled b s) = cameraPhi s"
  by (simp_all add: onMouseDown_def onMouseUp_def onWheel_def onTouchStart_def onTouchEnd_def
      elapse_def setOrbitEnabled_def clearTimeout_def setTimeout_def fold_cooldownExpired Let_def
      split: option.splits list.splits)

lemma step_phi:
  assumes "step s e = Inr s'"
  shows "cameraPhi s' = cameraPhi s
         \<or> (isDragging s
            \<and> (\<exists>x y. (e = MouseMove x y \<or> e = TouchMove [(x, y)])
                 \<and> cameraPhi s' = max 0.1 (min 1.4 (cameraPhi s + (y - previousMouseY s) * 0.003))))"
proof (cases e)
  case CallInit
  with assms initThreeScene_Inr [of s s'] show ?thesis by (simp add: sameInteraction_def)
next
  case CallDestroy
  with assms destroyThreeScene_Inr [of s] show ?thesis by auto
next
  case (MouseMove x y)
  with assms orbit_Inr [of x y s s'] show ?thesis
    by (auto simp: onMouseMove_def split: if_splits)
next
  case (TouchMove ts)
  with assms show ?thesis
    using orbit_Inr [of "fst (hd ts)" "snd (hd ts)" s s']
    by (cases ts; cases "tl ts") (auto simp: onTouchMove_def split: if_splits)
next
  case (WindowResize w h)
  with assms show ?thesis
    by (auto simp: onWindowResize_def Let_def split: option.splits if_splits)
next
  case Frame
  with assms runFrames_Inr [of "rafQueue s" "s\<lparr>rafQueue := []\<rparr>" s'] show ?thesis
    by (simp add: sameInteraction_def)
next
  case (LoadSuccess g)
  with assms show ?thesis
    by (cases "pendingLoads s") (auto dest!: onLoaded_Inr simp: sameInteraction_def)
next
  case LoadError
  with assms show ?thesis
    by (cases "pendingLoads s") (auto dest!: createFallbackPointCloud_Inr simp: sameInteraction_def)
qed (use assms in \<open>auto simp: listeners_phi split: if_splits\<close>)

lemma run_phi:
  "wellFormed s \<Longrightarrow> 0.1 \<le> cameraPhi s \<Longrightarrow> cameraPhi s \<le> 1.4 \<Longrightarrow>
   \<exists>s'. run s es = Inr s' \<and> 0.1 \<le> cameraPhi s' \<and> cameraPhi s' \<le> 1.4"
proof (induction es arbitrary: s)
  case Nil
  then show ?case by simp
next
  case (Cons e es)
  from step_wellFormed [OF Cons.prems(1), of e] obtain s1 where s1:
    "step s e = Inr s1" "wellFormed s1"
    by blast
  have "0.1 \<le> cameraPhi s1 \<and> cameraPhi s1 \<le> 1.4"
  proof (cases "cameraPhi s1 = cameraPhi s")
    case True
    with Cons.prems(2) Cons.prems(3) show ?thesis by simp
  next
    case False
    with step_phi [OF s1(1)] obtain y where
      p: "cameraPhi s1 = max 0.1 (min 1.4 (cameraPhi s + (y - previousMouseY s) * 0.003))"
      by blast
    show ?thesis
      unfolding p by (simp only: clamp_range)
  qed
  with Cons.IH [OF s1(2)] s1(1) show ?case by simp
qed

text \<open>
  Claim C2. The module starts with \<open>cameraPhi = 0.4\<close>, and after any sequence of events
  from there (none of which ends in an error) \<open>cameraPhi\<close> lies in \<open>[0.1, 1.4]\<close>. A single
  event either leaves \<open>cameraPhi\<close> as it was or is a mouse move or a single-touch move
  during a drag, and then the new value is the clamp of \<open>cameraPhi + dy * 0.003\<close> to
  \<open>[0.1, 1.4]\<close>, whatever the old value and the delta are.
\<close>

theorem C2_phi_clamped:
  "cameraPhi (moduleLoaded h) = 0.4
   \<and> (\<forall>es. \<exists>s. run (moduleLoaded h) es = Inr s \<and> 0.1 \<le> cameraPhi s \<and> cameraPhi s \<le> 1.4)
   \<and> (\<forall>s e s'. step s e = Inr s' \<longrightarrow>
         cameraPhi s' = cameraPhi s
         \<or> (isDragging s
            \<and> (\<exists>x y. (e = MouseMove x y \<or> e = TouchMove [(x, y)])
                 \<and> cameraPhi s' = max 0.1 (min 1.4 (cameraPhi s + (y - previousMouseY s) * 0.003))
                 \<and> 0.1 \<le> cameraPhi s' \<and> cameraPhi s' \<le> 1.4)))"
proof (intro conjI allI impI)
  show "cameraPhi (moduleLoaded h) = 0.4"
    by (simp add: moduleLoaded_def)
next
  fix es
  have "0.1 \<le> cameraPhi (moduleLoaded h)" "cameraPhi (moduleLoaded h) \<le> 1.4"
    by (simp_all add: moduleLoaded_def)
  with run_phi [OF moduleLoaded_wellFormed, of h es]
  show "\<exists>s. run (moduleLoaded h) es = Inr s \<and> 0.1 \<le> cameraPhi s \<and> cameraPhi s \<le> 1.4"
    by simp
next
  fix s e s'
  assume "step s e = Inr s'"
  from step_phi [OF this]
  have sp: "cameraPhi s' = cameraPhi s
         \<or> (isDragging s
            \<and> (\<exists>x y. (e = MouseMove x y \<or> e = TouchMove [(x, y)])
                 \<and> cameraPhi s' = max 0.1 (min 1.4 (cameraPhi s + (y - previousMouseY s) * 0.003))))" .
  show "cameraPhi s' = cameraPhi s
         \<or> (isDragging s
            \<and> (\<exists>x y. (e = MouseMove x y \<or> e = TouchMove [(x, y)])
                 \<and> cameraPhi s' = max 0.1 (min 1.4 (cameraPhi s + (y - previousMouseY s) * 0.003))
                 \<and> 0.1 \<le> cameraPhi s' \<and> cameraPhi s' \<le> 1.4))"
  proof (cases "cameraPhi s' = cameraPhi s")
    case True
    then show ?thesis by (rule disjI1)
  next
    case False
    with sp obtain x y where
      d: "isDragging s" and e: "e = MouseMove x y \<or> e = TouchMove [(x, y)]"
      and p: "cameraPhi s' = max 0.1 (min 1.4 (cameraPhi s + (y - previousMouseY s) * 0.003))"
      by blast
    have "0.1 \<le> cameraPhi s' \<and> cameraPhi s' \<le> 1.4"
      unfolding p by (simp only: clamp_range)
    with d e p show ?thesis by blast
  qed
qed

theorem C2_phi_clamped_witness:
  "(\<exists>s. run (moduleLoaded exampleHost)
           [CallInit, MouseDown 0 0, MouseMove 0 1000000, Frame, TouchMove [(0, - 1000000)]] = Inr s
       \<and> 0.1 \<le> cameraPhi s \<and> cameraPhi s \<le> 1.4)
   \<and> cameraPhi (moduleLoaded exampleHost) = 0.4"
  using C2_phi_clamped [of exampleHost] by blast

subsection \<open>A missing canvas\<close>

text \<open>
  Claim C9. Without the canvas \<open>initThreeScene\<close> returns at once and changes nothing: no
  scene, camera or renderer is built, no frame is requested, no load is started and no
  listener is registered. \<open>destroyThreeScene\<close> on a state in which nothing was built, no
  timeout was set and no listener was registered raises no error and changes nothing; so
  calling both on the freshly loaded module leaves it as it was.
\<close>

theorem C9_missing_canvas:
  "(canvas s = None \<longrightarrow> initThreeScene s = Inr s \<and> step s CallInit = Inr s)
   \<and> (canvas s = None \<and> animationId s = None \<and> interactionTimeout s = None
        \<and> scene s = None \<and> renderer s = None \<and> \<not> resizeListener s \<longrightarrow>
      destroyThreeScene s = Inr s \<and> step s CallDestroy = Inr s)
   \<and> (\<not> hostCanvas h \<longrightarrow>
        run (moduleLoaded h) [CallInit, CallDestroy] = Inr (moduleLoaded h)
        \<and> scene (moduleLoaded h) = None \<and> camera (moduleLoaded h) = None
        \<and> renderer (moduleLoaded h) = None \<and> rafQueue (moduleLoaded h) = []
        \<and> pendingLoads (moduleLoaded h) = [] \<and> canvas (moduleLoaded h) = None
        \<and> \<not> resizeListener (moduleLoaded h))"
proof (intro conjI impI)
  assume "canvas s = None"
  then show "initThreeScene s = Inr s" "step s CallInit = Inr s"
    by (simp_all add: initThreeScene_def)
next
  assume a: "canvas s = None \<and> animationId s = None \<and> interactionTimeout s = None
        \<and> scene s = None \<and> renderer s = None \<and> \<not> resizeListener s"
  then show d: "destroyThreeScene s = Inr s"
    by (simp add: destroyThreeScene_def clearTimeout_def)
  then show "step s CallDestroy = Inr s" by simp
next
  assume h: "\<not> hostCanvas h"
  then have i: "initThreeScene (moduleLoaded h) = Inr (moduleLoaded h)"
    by (simp add: initThreeScene_def moduleLoaded_def)
  from h have d: "destroyThreeScene (moduleLoaded h) = Inr (moduleLoaded h)"
    by (simp add: destroyThreeScene_def clearTimeout_def moduleLoaded_def)
  from i d show "run (moduleLoaded h) [CallInit, CallDestroy] = Inr (moduleLoaded h)"
    by simp
  from h show "canvas (moduleLoaded h) = None"
    by (simp add: moduleLoaded_def)
qed (simp_all add: moduleLoaded_def)

theorem C9_missing_canvas_witness:
  "run (moduleLoaded (exampleHost\<lparr>hostCanvas := False\<rparr>)) [CallInit, CallDestroy]
     = Inr (moduleLoaded (exampleHost\<lparr>hostCanvas := False\<rparr>))
   \<and> initThreeScene (moduleLoaded (exampleHost\<lparr>hostCanvas := False\<rparr>))
     = Inr (moduleLoaded (exampleHost\<lparr>hostCanvas := False\<rparr>))
   \<and> destroyThreeScene (moduleLoaded (exampleHost\<lparr>hostCanvas := False\<rparr>))
     = Inr (moduleLoaded (exampleHost\<lparr>hostCanvas := False\<rparr>))
   \<and> scene (moduleLoaded (exampleHost\<lparr>hostCanvas := False\<rparr>)) = None
   \<and> rafQueue (moduleLoaded (exampleHost\<lparr>hostCanvas := False\<rparr>)) = []"
proof -
  let ?h = "exampleHost\<lparr>hostCanvas := False\<rparr>"
  have f: "\<not> hostCanvas ?h" "canvas (moduleLoaded ?h) = None" "animationId (moduleLoaded ?h) = None"
    "interactionTimeout (moduleLoaded ?h) = None" "scene (moduleLoaded ?h) = None"
    "renderer (moduleLoaded ?h) = None" "\<not> resizeListener (moduleLoaded ?h)"
    by (simp_all add: moduleLoaded_def)
  from C9_missing_canvas [of "moduleLoaded ?h" ?h] f show ?thesis
    by blast
qed

subsection \<open>Disabling the orbit\<close>










subsection \<open>The cooldown timeouts\<close>




























lemma started:
  "\<exists>s1. initThreeScene (moduleLoaded exampleHost) = Inr s1
      \<and> canvas s1 = Some \<lparr>pointerEvents = PE_unset, cursor = Cursor_unset,
                             listeners = allCanvasEvents\<rparr>
      \<and> timers s1 = [] \<and> interactionTimeout s1 = None \<and> nextTimerId s1 = 1
      \<and> now s1 = 0 \<and> \<not> isDragging s1 \<and> \<not> isUserInteracting s1"
proof -
  have c: "canvas (moduleLoaded exampleHost)
           = Some \<lparr>pointerEvents = PE_unset, cursor = Cursor_unset, listeners = {}\<rparr>"
    by (simp add: moduleLoaded_def exampleHost_def)
  from initThreeScene_canvas [OF c] obtain s1 where s1:
    "initThreeScene (moduleLoaded exampleHost) = Inr s1"
    "sameInteraction (moduleLoaded exampleHost) s1"
    "canvas s1 = Some (\<lparr>pointerEvents = PE_unset, cursor = Cursor_unset, listeners = {}\<rparr>
                        \<lparr>listeners := listeners \<lparr>pointerEvents = PE_unset, cursor = Cursor_unset,
                                                  listeners = {}\<rparr> \<union> allCanvasEvents\<rparr>)"
    by blast
  from s1(2) have "timers s1 = []" "interactionTimeout s1 = None" "nextTimerId s1 = 1"
    "now s1 = 0" "\<not> isDragging s1" "\<not> isUserInteracting s1"
    by (simp_all add: sameInteraction_def moduleLoaded_def)
  moreover from s1(3) have "canvas s1 = Some \<lparr>pointerEvents = PE_unset, cursor = Cursor_unset,
                             listeners = allCanvasEvents\<rparr>"
    by simp
  ultimately show ?thesis
    using s1(1) by blast
qed

text \<open>
  Claim C4, at the input on which the code departs from it. \<open>onMouseUp\<close> and \<open>onWheel\<close>
  clear the timeout of the slot before they set a new one; \<open>onTouchEnd\<close> sets one without
  clearing. Two fingers go down one after the other and are lifted one after the other:
  after the second \<open>touchend\<close> two timeouts are pending, of which the slot holds the second
  only. A mouse-down then cancels the second and leaves the first, which fires 2000 ms
  later and clears \<open>isUserInteracting\<close> in the middle of the new drag.
\<close>

theorem C4_touch_end_stacks_timeouts:
  "observe timers
     (run (moduleLoaded exampleHost)
        [CallInit, TouchStart [(10, 10)], TouchStart [(10, 10), (50, 50)], TouchEnd, TouchEnd])
     = Some [(1, 2000), (2, 2000)]
   \<and> observe singleSlot
     (run (moduleLoaded exampleHost)
        [CallInit, TouchStart [(10, 10)], TouchStart [(10, 10), (50, 50)], TouchEnd, TouchEnd])
     = Some False
   \<and> observe timers
     (run (moduleLoaded exampleHost)
        [CallInit, TouchStart [(10, 10)], TouchStart [(10, 10), (50, 50)], TouchEnd, TouchEnd,
         MouseDown 0 0])
     = Some [(1, 2000)]
   \<and> observe (\<lambda>s. (isDragging s, isUserInteracting s))
     (run (moduleLoaded exampleHost)
        [CallInit, TouchStart [(10, 10)], TouchStart [(10, 10), (50, 50)], TouchEnd, TouchEnd,
         MouseDown 0 0, Elapse 2000])
     = Some (True, False)"
proof -
  from started obtain s1 where s1: "initThreeScene (moduleLoaded exampleHost) = Inr s1"
    "canvas s1 = Some \<lparr>pointerEvents = PE_unset, cursor = Cursor_unset,
                             listeners = allCanvasEvents\<rparr>"
    "timers s1 = []" "interactionTimeout s1 = None" "nextTimerId s1 = 1"
    "now s1 = 0" "\<not> isDragging s1" "\<not> isUserInteracting s1"
    by blast
  show ?thesis
    by (simp add: s1 delivered_def allCanvasEvents_def onTouchStart_def onTouchEnd_def
        onMouseDown_def setTimeout_def clearTimeout_def elapse_def cooldownExpired_def
        observe_def singleSlot_def Let_def)
qed





end
